theory Spec2Isabelle
  imports Main
begin

section \<open>DTPublisher: a gated wrapper around the rospy publisher\<close>

text \<open>
  The source is the class \<^verbatim>\<open>DTPublisher(rospy.Publisher)\<close> of
  \<^verbatim>\<open>packages/duckietown/include/duckietown/dtpublisher.py\<close>. The base class, the
  transport behind it and the change callbacks are code of other parties: they are
  parameters of the model, and every call the class makes to one of them is recorded as an
  event.
\<close>

subsection \<open>Values, exceptions and the object\<close>

text \<open>
  An exception is a value. \<open>AttributeError\<close> carries the name of the attribute that was
  read and not found; \<open>Raised\<close> stands for whatever the base class, the transport or a
  callback raises.
\<close>

datatype exn = AttributeError string | TypeError | Raised string

text \<open>What \<^verbatim>\<open>num_of_subscribers\<close> can hold: Python's \<^verbatim>\<open>None\<close> (line 45) or an integer.\<close>

datatype pyval = NoneVal | IntVal int

text \<open>
  Lines 50 to 52 store the class \<^verbatim>\<open>rospy.SubscribeListener\<close> itself (there is no call,
  so no instance is made) and assign to two attributes of that class. Before line 51 these
  are the methods the library defines; afterwards the bound method
  \<^verbatim>\<open>self.cbChangeSubscribers\<close>.
\<close>

datatype clsref = SubscribeListenerClass

datatype handler = LibraryDefault | CbChangeSubscribers

text \<open>
  The part of the Python world the class reads and writes. An attribute of the instance
  that has not been assigned is \<open>None\<close>, and reading it raises \<open>AttributeError\<close>. A list
  is an object: the attribute \<^verbatim>\<open>subs_changed_callbacks\<close> holds a reference, and
  \<open>list_objs\<close> gives the contents behind each reference, so that appending to the list
  in place and binding the attribute to another list are different things. \<open>env\<close> is the
  state of everything outside the class (the transport handle and its connections).
\<close>

record ('c, 'e) pyworld =
  active :: "bool option"
  num_of_subscribers :: "pyval option"
  subs_changed_callbacks :: "nat option"
  subscribe_listener :: "clsref option"
  peer_subscribe :: handler
  peer_unsubscribe :: handler
  list_objs :: "nat \<Rightarrow> 'c list"
  next_ref :: nat
  env :: 'e

text \<open>
  The code of other parties. \<open>base_init\<close> is \<^verbatim>\<open>rospy.Publisher.__init__\<close> (it raises
  for invalid arguments), \<open>base_publish\<close> is \<^verbatim>\<open>rospy.Publisher.publish\<close>,
  \<open>get_num_connections\<close> reads the connection count and returns an integer, and
  \<open>call_cb c\<close> runs the callback \<open>c\<close> on the publisher: a callback receives the object
  and may change anything in the world. The result \<open>Some e\<close> says that the call raised
  \<open>e\<close>.
\<close>

record ('a, 'c, 'e, 'm) externals =
  base_init :: "'a \<Rightarrow> 'e \<Rightarrow> exn option \<times> 'e"
  base_publish :: "'m \<Rightarrow> 'e \<Rightarrow> exn option \<times> 'e"
  get_num_connections :: "'e \<Rightarrow> int"
  call_cb :: "'c \<Rightarrow> ('c, 'e) pyworld \<Rightarrow> exn option \<times> ('c, 'e) pyworld"

text \<open>One event for each call that leaves the class, with its argument.\<close>

datatype ('a, 'c, 'm) event =
  BaseInit 'a | GetNumConnections | BasePublish 'm | Callback 'c

text \<open>
  A method returns the exception it raised, if any, the world it left behind and the
  calls it made, in order.
\<close>

type_synonym ('a, 'c, 'e, 'm) outcome =
  "exn option \<times> ('c, 'e) pyworld \<times> ('a, 'c, 'm) event list"

subsection \<open>The methods\<close>

text \<open>
  \<^verbatim>\<open>publish\<close>, lines 54 to 64: the arguments \<open>m\<close> go to the base class as they are,
  when \<^verbatim>\<open>self.active\<close> is true.
\<close>

definition publish ::
  "('a, 'c, 'e, 'm) externals \<Rightarrow> 'm \<Rightarrow> ('c, 'e) pyworld \<Rightarrow> ('a, 'c, 'e, 'm) outcome" where
  "publish X m w =
     (case active w of
        None \<Rightarrow> (Some (AttributeError ''active''), w, [])
      | Some b \<Rightarrow>
          if b then
            (case base_publish X m (env w) of
               (r, e') \<Rightarrow> (r, w\<lparr>env := e'\<rparr>, [BasePublish m]))
          else (None, w, []))"

text \<open>The assignment \<^verbatim>\<open>P.active = b\<close> ("can be directly assigned").\<close>

definition set_active :: "bool \<Rightarrow> ('c, 'e) pyworld \<Rightarrow> ('c, 'e) pyworld" where
  "set_active b w = w\<lparr>active := Some b\<rparr>"

text \<open>
  The loop of lines 68 and 69. Python's list iterator keeps the list object \<open>r\<close> and an
  index, and at each step reads the list as it is then: a callback that appends to the
  list lengthens the loop, and one that appends at every call keeps it running for ever.
  The result \<open>None\<close> is the loop that does not return.
\<close>

partial_function (option) cb_loop ::
  "('c \<Rightarrow> ('c, 'e) pyworld \<Rightarrow> exn option \<times> ('c, 'e) pyworld) \<Rightarrow> nat \<Rightarrow> nat \<Rightarrow>
   ('c, 'e) pyworld \<Rightarrow> ('a, 'c, 'm) event list \<Rightarrow> ('a, 'c, 'e, 'm) outcome option" where
  "cb_loop run r i w evs =
     (if i < length (list_objs w r) then
        (case run (list_objs w r ! i) w of
           (Some e, w') \<Rightarrow> Some (Some e, w', evs @ [Callback (list_objs w r ! i)])
         | (None, w') \<Rightarrow> cb_loop run r (Suc i) w' (evs @ [Callback (list_objs w r ! i)]))
      else Some (None, w, evs))"

text \<open>
  The same loop, looked at after \<open>k\<close> callbacks have been called and have returned: the
  world they left and the calls made so far. It is \<open>None\<close> when the loop does not get
  that far, because the list ended or a callback raised.
\<close>

fun cb_loop_after ::
  "('c \<Rightarrow> ('c, 'e) pyworld \<Rightarrow> exn option \<times> ('c, 'e) pyworld) \<Rightarrow> nat \<Rightarrow> nat \<Rightarrow>
   ('c, 'e) pyworld \<Rightarrow> ('a, 'c, 'm) event list \<Rightarrow>
   (('c, 'e) pyworld \<times> ('a, 'c, 'm) event list) option" where
  "cb_loop_after run r 0 w evs = Some (w, evs)"
| "cb_loop_after run r (Suc k) w evs =
     (case cb_loop_after run r k w evs of
        None \<Rightarrow> None
      | Some (v, es) \<Rightarrow>
          if k < length (list_objs v r) then
            (case run (list_objs v r ! k) v of
               (Some e, v') \<Rightarrow> None
             | (None, v') \<Rightarrow> Some (v', es @ [Callback (list_objs v r ! k)]))
          else None)"

text \<open>\<^verbatim>\<open>cbChangeSubscribers\<close>, lines 66 to 69.\<close>

definition cbChangeSubscribers ::
  "('a, 'c, 'e, 'm) externals \<Rightarrow> ('c, 'e) pyworld \<Rightarrow> ('a, 'c, 'e, 'm) outcome option" where
  "cbChangeSubscribers X w =
     (let w1 = w\<lparr>num_of_subscribers := Some (IntVal (get_num_connections X (env w)))\<rparr>
      in case subs_changed_callbacks w1 of
           None \<Rightarrow> Some (Some (AttributeError ''subs_changed_callbacks''), w1, [GetNumConnections])
         | Some r \<Rightarrow> cb_loop (call_cb X) r 0 w1 [GetNumConnections])"

text \<open>
  The property \<^verbatim>\<open>any_subscribers\<close>, lines 71 to 73. Comparing \<^verbatim>\<open>None\<close> with
  \<^verbatim>\<open>0\<close> raises \<open>TypeError\<close> in Python 3 (Python 2 answers \<^verbatim>\<open>False\<close>); no
  statement below is about that case.
\<close>

definition any_subscribers :: "('c, 'e) pyworld \<Rightarrow> (exn + bool) \<times> ('c, 'e) pyworld" where
  "any_subscribers w =
     (case num_of_subscribers w of
        None \<Rightarrow> (Inl (AttributeError ''num_of_subscribers''), w)
      | Some NoneVal \<Rightarrow> (Inl TypeError, w)
      | Some (IntVal n) \<Rightarrow> (Inr (0 < n), w))"

text \<open>
  \<^verbatim>\<open>__init__\<close>, lines 40 to 52. The object under construction has no attribute of
  this class yet (\<open>fresh\<close>); the base class's constructor sets none of the four.
\<close>

definition fresh :: "('c, 'e) pyworld \<Rightarrow> ('c, 'e) pyworld" where
  "fresh w = w\<lparr>active := None, num_of_subscribers := None,
               subs_changed_callbacks := None, subscribe_listener := None\<rparr>"

text \<open>Line 47: \<^verbatim>\<open>list()\<close> makes a new, empty list object.\<close>

definition init_callbacks :: "('c, 'e) pyworld \<Rightarrow> ('c, 'e) pyworld" where
  "init_callbacks w =
     w\<lparr>subs_changed_callbacks := Some (next_ref w),
       list_objs := (list_objs w)(next_ref w := []),
       next_ref := Suc (next_ref w)\<rparr>"

text \<open>Lines 50 to 52.\<close>

definition init_listener :: "('c, 'e) pyworld \<Rightarrow> ('c, 'e) pyworld" where
  "init_listener w =
     w\<lparr>subscribe_listener := Some SubscribeListenerClass,
       peer_subscribe := CbChangeSubscribers,
       peer_unsubscribe := CbChangeSubscribers\<rparr>"

definition init ::
  "('a, 'c, 'e, 'm) externals \<Rightarrow> 'a \<Rightarrow> ('c, 'e) pyworld \<Rightarrow> ('a, 'c, 'e, 'm) outcome option" where
  "init X a w =
     (case base_init X a (env w) of
        (Some e, e') \<Rightarrow> Some (Some e, (fresh w)\<lparr>env := e'\<rparr>, [BaseInit a])
      | (None, e') \<Rightarrow>
          (case cbChangeSubscribers X
                  ((fresh w)\<lparr>env := e', active := Some True, num_of_subscribers := Some NoneVal\<rparr>) of
             None \<Rightarrow> None
           | Some (Some e, w', evs) \<Rightarrow> Some (Some e, w', BaseInit a # evs)
           | Some (None, w', evs) \<Rightarrow>
               Some (None, init_listener (init_callbacks w'), BaseInit a # evs)))"

subsection \<open>A concrete world\<close>

text \<open>
  A transport whose state is the connection count and the messages sent so far. Its
  constructor refuses an empty topic name, its publish refuses the message \<open>0\<close>; the
  callback \<open>7\<close> raises, and every other callback leaves its number in the state.
\<close>

definition example_ext :: "(string, nat, int \<times> nat list, nat) externals" where
  "example_ext =
     \<lparr>base_init = (\<lambda>a e. if a = [] then (Some (Raised ''ROSException''), e) else (None, e)),
      base_publish = (\<lambda>m e. if m = 0 then (Some (Raised ''ROSSerializationException''), e)
                             else (None, (fst e, snd e @ [m]))),
      get_num_connections = fst,
      call_cb = (\<lambda>c w. if c = 7 then (Some (Raised ''callback failed''), w)
                        else (None, w\<lparr>env := (fst (env w), snd (env w) @ [100 + c])\<rparr>))\<rparr>"

definition example_world :: "nat list \<Rightarrow> (nat, int \<times> nat list) pyworld" where
  "example_world cbs =
     \<lparr>active = Some True, num_of_subscribers = Some (IntVal 0),
      subs_changed_callbacks = Some 0, subscribe_listener = Some SubscribeListenerClass,
      peer_subscribe = CbChangeSubscribers, peer_unsubscribe = CbChangeSubscribers,
      list_objs = (\<lambda>r. if r = 0 then cbs else []), next_ref = 1, env = (3, [])\<rparr>"


section \<open>The properties\<close>

subsection \<open>The loop over the callbacks\<close>




text \<open>The loop from the start is the loop from any point it gets to.\<close>

lemma cb_loop_after_continues:
  "cb_loop_after run r k w evs = Some (v, es) \<Longrightarrow>
   cb_loop run r 0 w evs = cb_loop run r k v es"
proof (induction k arbitrary: v es)
  case 0
  then show ?case by simp
next
  case (Suc k)
  from Suc.prems obtain u us where
    before: "cb_loop_after run r k w evs = Some (u, us)"
    and len: "k < length (list_objs u r)"
    and call: "run (list_objs u r ! k) u = (None, v)"
    and es: "es = us @ [Callback (list_objs u r ! k)]"
    by (auto split: option.splits prod.splits if_splits)
  have "cb_loop run r 0 w evs = cb_loop run r k u us"
    by (rule Suc.IH [OF before])
  also have "\<dots> = cb_loop run r (Suc k) v es"
    using len call es by (subst cb_loop.simps) simp
  finally show ?case .
qed



lemma example_after_one:
  "cb_loop_after (call_cb example_ext) 0 1
     ((example_world [1, 7, 2])\<lparr>num_of_subscribers :=
        Some (IntVal (get_num_connections example_ext (env (example_world [1, 7, 2]))))\<rparr>)
     [GetNumConnections] =
   Some ((example_world [1, 7, 2])\<lparr>num_of_subscribers := Some (IntVal 3), env := (3, [101])\<rparr>,
         [GetNumConnections, Callback 1])"
  by (simp add: example_ext_def example_world_def)

subsection \<open>Publishing\<close>

text \<open>
  C1. When \<^verbatim>\<open>active\<close> is true, \<^verbatim>\<open>publish(m)\<close> makes exactly one call to the base
  class's publish, with the argument \<open>m\<close> as given, and returns what that call did to
  the transport; when \<^verbatim>\<open>active\<close> is false it makes no call, raises nothing and leaves
  the world as it was.
\<close>

theorem publish_gate:
  "(active w = Some True \<longrightarrow>
      publish X m w = (fst (base_publish X m (env w)),
                       w\<lparr>env := snd (base_publish X m (env w))\<rparr>, [BasePublish m])) \<and>
   (active w = Some False \<longrightarrow> publish X m w = (None, w, []))"
  by (simp add: publish_def split_beta)

theorem publish_gate_witness:
  "active (example_world []) = Some True \<and>
   publish example_ext 5 (example_world []) =
     (None, (example_world [])\<lparr>env := (3, [5])\<rparr>, [BasePublish 5]) \<and>
   active (set_active False (example_world [])) = Some False \<and>
   publish example_ext 5 (set_active False (example_world [])) =
     (None, set_active False (example_world []), [])"
  using publish_gate [of "example_world []" example_ext 5]
    publish_gate [of "set_active False (example_world [])" example_ext 5]
  by (simp add: example_ext_def example_world_def set_active_def)

text \<open>
  C6. With \<^verbatim>\<open>active\<close> set to false before a first \<^verbatim>\<open>publish\<close> and back to true
  before a second one, the first call forwards nothing, raises nothing and changes
  nothing, and the second is exactly one call of the transport's publish with its own
  message: it returns what that call returns and leaves the transport as that call
  leaves it.
\<close>

theorem toggle_forwards_second_only:
  "publish X m1 (set_active False w) = (None, set_active False w, []) \<and>
   publish X m2 (set_active True (fst (snd (publish X m1 (set_active False w))))) =
     (fst (base_publish X m2 (env w)),
      (set_active True w)\<lparr>env := snd (base_publish X m2 (env w))\<rparr>,
      [BasePublish m2])"
  by (simp add: publish_def set_active_def split_beta)

text \<open>
  C8. When \<^verbatim>\<open>active\<close> is true and the transport's publish raises \<open>e\<close>,
  \<^verbatim>\<open>publish\<close> raises the same \<open>e\<close> after that single call: there is no second
  attempt and nothing is caught.
\<close>

theorem transport_error_propagates:
  "active w = Some True \<Longrightarrow> base_publish X m (env w) = (Some e, e') \<Longrightarrow>
   publish X m w = (Some e, w\<lparr>env := e'\<rparr>, [BasePublish m])"
  by (simp add: publish_def)

theorem transport_error_propagates_witness:
  "active (example_world []) = Some True \<and>
   base_publish example_ext 0 (env (example_world [])) =
     (Some (Raised ''ROSSerializationException''), (3, [])) \<and>
   publish example_ext 0 (example_world []) =
     (Some (Raised ''ROSSerializationException''), example_world [], [BasePublish 0])"
  using transport_error_propagates
          [of "example_world []" example_ext 0 "Raised ''ROSSerializationException''" "(3, [])"]
  by (simp add: example_ext_def example_world_def)

subsection \<open>The notification of a change of subscribers\<close>




text \<open>
  C7. Whenever the loop of a notification gets to call a callback and that call raises
  \<open>e\<close>, the notification raises the same \<open>e\<close> and leaves the world as the callback
  left it; the call to the failing callback is the last call made, so no callback after
  it is called. Nothing is asked of the callbacks called before.
\<close>

theorem callback_exception_propagates:
  fixes X :: "('a, 'c, 'e, 'm) externals"
  assumes "subs_changed_callbacks w = Some r"
    and "cb_loop_after (call_cb X) r k
           (w\<lparr>num_of_subscribers := Some (IntVal (get_num_connections X (env w)))\<rparr>)
           [GetNumConnections :: ('a, 'c, 'm) event] = Some (v, evs)"
    and "k < length (list_objs v r)"
    and "call_cb X (list_objs v r ! k) v = (Some e, w')"
  shows "cbChangeSubscribers X w = Some (Some e, w', evs @ [Callback (list_objs v r ! k)])"
proof -
  let ?w1 = "w\<lparr>num_of_subscribers := Some (IntVal (get_num_connections X (env w)))\<rparr>"
  let ?q = "[GetNumConnections :: ('a, 'c, 'm) event]"
  have "cb_loop (call_cb X) r 0 ?w1 ?q = cb_loop (call_cb X) r k v evs"
    by (rule cb_loop_after_continues [OF assms(2)])
  also have "\<dots> = Some (Some e, w', evs @ [Callback (list_objs v r ! k)])"
    using assms(3,4) by (subst cb_loop.simps) simp
  finally show ?thesis
    using assms(1) by (simp add: cbChangeSubscribers_def)
qed

theorem callback_exception_propagates_witness:
  "subs_changed_callbacks (example_world [1, 7, 2]) = Some 0 \<and>
   cbChangeSubscribers example_ext (example_world [1, 7, 2]) =
     Some (Some (Raised ''callback failed''),
           (example_world [1, 7, 2])\<lparr>num_of_subscribers := Some (IntVal 3), env := (3, [101])\<rparr>,
           [GetNumConnections, Callback 1, Callback 7])"
  using callback_exception_propagates
          [of "example_world [1, 7, 2]" 0 example_ext 1 _ _ "Raised ''callback failed''"
              "(example_world [1, 7, 2])\<lparr>num_of_subscribers := Some (IntVal 3), env := (3, [101])\<rparr>",
           OF _ example_after_one]
  by (simp add: example_ext_def example_world_def)




subsection \<open>Reading the count\<close>

text \<open>
  C5. With an integer \<open>n\<close> in \<^verbatim>\<open>num_of_subscribers\<close>, \<^verbatim>\<open>any_subscribers\<close>
  returns the truth of \<open>0 < n\<close>, false for \<open>0\<close> and true from \<open>1\<close> on, and leaves the
  world as it is.
\<close>

theorem any_subscribers_reads_count:
  "num_of_subscribers w = Some (IntVal n) \<Longrightarrow>
   any_subscribers w = (Inr (0 < n), w) \<and>
   (n = 0 \<longrightarrow> fst (any_subscribers w) = Inr False) \<and>
   (1 \<le> n \<longrightarrow> fst (any_subscribers w) = Inr True)"
  by (simp add: any_subscribers_def)

theorem any_subscribers_reads_count_witness:
  "num_of_subscribers (example_world []) = Some (IntVal 0) \<and>
   any_subscribers (example_world []) = (Inr False, example_world []) \<and>
   num_of_subscribers ((example_world [])\<lparr>num_of_subscribers := Some (IntVal 1)\<rparr>) = Some (IntVal 1) \<and>
   any_subscribers ((example_world [])\<lparr>num_of_subscribers := Some (IntVal 1)\<rparr>) =
     (Inr True, (example_world [])\<lparr>num_of_subscribers := Some (IntVal 1)\<rparr>)"
  using any_subscribers_reads_count [of "example_world []" 0]
    any_subscribers_reads_count [of "(example_world [])\<lparr>num_of_subscribers := Some (IntVal 1)\<rparr>" 1]
  by (simp add: example_world_def)

subsection \<open>Construction\<close>

text \<open>
  C10. Line 46 calls \<^verbatim>\<open>cbChangeSubscribers\<close> before line 47 has assigned
  \<^verbatim>\<open>subs_changed_callbacks\<close>: whenever the base class's constructor accepts the
  arguments, construction stores the count, reads the missing attribute at line 68 and
  raises \<open>AttributeError\<close>, having made two calls only.
\<close>

theorem construction_always_raises:
  "fst (base_init X a (env w)) = None \<Longrightarrow>
   init X a w =
     Some (Some (AttributeError ''subs_changed_callbacks''),
           (fresh w)\<lparr>env := snd (base_init X a (env w)), active := Some True,
                     num_of_subscribers :=
                       Some (IntVal (get_num_connections X (snd (base_init X a (env w)))))\<rparr>,
           [BaseInit a, GetNumConnections])"
  by (cases "base_init X a (env w)") (simp add: init_def cbChangeSubscribers_def fresh_def)

theorem construction_always_raises_witness:
  "fst (base_init example_ext ''chatter'' (env (example_world [1, 2]))) = None \<and>
   init example_ext ''chatter'' (example_world [1, 2]) =
     Some (Some (AttributeError ''subs_changed_callbacks''),
           (fresh (example_world [1, 2]))\<lparr>active := Some True,
                                          num_of_subscribers := Some (IntVal 3)\<rparr>,
           [BaseInit ''chatter'', GetNumConnections])"
  using construction_always_raises [of example_ext "''chatter''" "example_world [1, 2]"]
  by (simp add: example_ext_def example_world_def fresh_def)

text \<open>
  C3. Construction with a valid topic name in the concrete world: it does not return
  normally, and the attribute \<^verbatim>\<open>subs_changed_callbacks\<close> is never assigned.
\<close>

theorem construction_raises_example:
  "init example_ext ''chatter'' (example_world []) =
     Some (Some (AttributeError ''subs_changed_callbacks''),
           (fresh (example_world []))\<lparr>active := Some True, num_of_subscribers := Some (IntVal 3)\<rparr>,
           [BaseInit ''chatter'', GetNumConnections])"
  by (simp add: init_def cbChangeSubscribers_def fresh_def example_ext_def example_world_def)

text \<open>
  C4. Lines 50 to 52 store the listener class in an attribute of the instance and
  overwrite two attributes of that class; they make no call, and the transport, which
  holds the listeners of the handle, is as it was.
\<close>

theorem init_listener_leaves_transport:
  "env (init_listener w) = env w \<and>
   subscribe_listener (init_listener w) = Some SubscribeListenerClass \<and>
   peer_subscribe (init_listener w) = CbChangeSubscribers \<and>
   peer_unsubscribe (init_listener w) = CbChangeSubscribers"
  by (simp add: init_listener_def)

end
